theory Spec2Isabelle
  imports Complex_Main "HOL-Library.Sublist" "HOL-Library.Multiset"
begin

section \<open>The notebook and what is modelled\<close>

text \<open>
  The repository is one Jupyter notebook (in two copies) that builds a retrieval-augmented
  question answering chain out of library objects. The cells modelled here are:
  \<^verbatim>\<open>
  text_splitter = RecursiveCharacterTextSplitter(chunk_size = 150, chunk_overlap = 50,
                                                 length_function = len, is_separator_regex = False)
  chunks = text_splitter.split_documents(documents)
  store = Chroma.from_documents(
      chunks, embeddings,
      ids = [f"{item.metadata['source']}-{index}" for index, item in enumerate(chunks)],
      collection_name="D4DO-Embeddings")

  text_generation_pipeline = transformers.pipeline(model=model, tokenizer=tokenizer,
      task="text-generation", repetition_penalty=1.1, return_full_text=True, max_new_tokens=300)
  prompt_template = """
  ### [INST]
  Instruction: Answer the question based on your
  designed4devops knowledge. Don't make up answers, just say there is no answer in the book. Here is context to help:

  {context}

  ### QUESTION:
  {question}

  [/INST]
   """
  mistral_llm = HuggingFacePipeline(pipeline=text_generation_pipeline)
  prompt = PromptTemplate(input_variables=["context", "question"], template=prompt_template)
  llm_chain = LLMChain(llm=mistral_llm, prompt=prompt)

  retriever = store.as_retriever()
  rag_chain = ( {"context": retriever, "question": RunnablePassthrough()} | llm_chain )
  rag_chain.invoke(query)
  \<close>
  The text splitter's \<open>split_text\<close>, the embedding model, the distance of the vector
  index and the language model are library code or trained models: they are parameters of
  the definitions below. The vector store's \<open>upsert\<close> and \<open>query\<close> and its cosine
  distance are not in the notebook either; they are modelled from the specification and
  marked so.

  Strings are \<open>string\<close>; a \<open>char\<close> stands for the Python code point of the same number,
  so the model covers the strings whose code points are below 256.
\<close>

section \<open>Python's printing of values\<close>

text \<open>\<open>str(n)\<close> of a non-negative int: its decimal digits, most significant first.\<close>

definition digit_char :: "nat \<Rightarrow> char" where
  "digit_char d = char_of (48 + d)"

fun py_str_nat :: "nat \<Rightarrow> string" where
  "py_str_nat n = (if n < 10 then [digit_char n] else py_str_nat (n div 10) @ [digit_char (n mod 10)])"

declare py_str_nat.simps [simp del]

definition py_str_int :: "int \<Rightarrow> string" where
  "py_str_int i = (if i < 0 then CHR ''-'' # py_str_nat (nat (- i)) else py_str_nat (nat i))"

text \<open>
  \<open>repr(s)\<close> of a str, as CPython writes it: the quote is \<open>"\<close> when the string has a
  \<open>'\<close> and no \<open>"\<close>, and \<open>'\<close> otherwise; the quote and the backslash are escaped with a
  backslash, tab, newline and carriage return are written \<open>\t\<close>, \<open>\n\<close>, \<open>\r\<close>, every
  other non-printable code point below 256 is written \<open>\xhh\<close>, and every other character
  stands for itself. The recorded result of \<open>rag_chain.invoke\<close> shows the quotes and the
  escaped newline inside \<open>page_content\<close>.
\<close>

definition hex_char :: "nat \<Rightarrow> char" where
  "hex_char d = (if d < 10 then char_of (48 + d) else char_of (87 + d))"

definition py_printable :: "char \<Rightarrow> bool" where
  "py_printable c = (let n = (of_char c :: nat) in
     \<not> (n < 32 \<or> n = 127 \<or> (128 \<le> n \<and> n \<le> 160) \<or> n = 173))"

definition py_escape_char :: "char \<Rightarrow> char \<Rightarrow> string" where
  "py_escape_char quote c =
     (if c = quote \<or> c = CHR 0x5C then [CHR 0x5C, c]
      else if c = CHR 0x09 then [CHR 0x5C, CHR ''t'']
      else if c = CHR 0x0A then [CHR 0x5C, CHR ''n'']
      else if c = CHR 0x0D then [CHR 0x5C, CHR ''r'']
      else if \<not> py_printable c
        then [CHR 0x5C, CHR ''x'', hex_char (of_char c div 16), hex_char (of_char c mod 16)]
      else [c])"

definition py_repr_str :: "string \<Rightarrow> string" where
  "py_repr_str s =
     (let quote = (if CHR 0x27 \<in> set s \<and> CHR 0x22 \<notin> set s then CHR 0x22 else CHR 0x27)
      in quote # concat (map (py_escape_char quote) s) @ [quote])"

text \<open>\<open>sep.join(parts)\<close>.\<close>

fun py_join :: "string \<Rightarrow> string list \<Rightarrow> string" where
  "py_join sep [] = []"
| "py_join sep [x] = x"
| "py_join sep (x # y # zs) = x @ sep @ py_join sep (y # zs)"

section \<open>Documents\<close>

text \<open>
  A LangChain \<open>Document\<close>: its \<open>page_content\<close> and its \<open>metadata\<close> dict, which the PDF
  loader fills with the keys \<open>source\<close> (the file path) and \<open>page\<close> (the page number).
\<close>

record Document =
  page_content :: string
  page :: int
  source :: string

text \<open>
  \<open>repr\<close> of a Document and \<open>str\<close> of a list of Documents, as the recorded results print
  them:
  \<^verbatim>\<open>[Document(page_content='...', metadata={'page': 32, 'source': '/tf/...pdf'}), Document(...)]\<close>
\<close>

definition Document_repr :: "Document \<Rightarrow> string" where
  "Document_repr d =
     ''Document(page_content='' @ py_repr_str (page_content d) @
     '', metadata={'page': '' @ py_str_int (page d) @
     '', 'source': '' @ py_repr_str (source d) @ ''})''"

definition py_str_docs :: "Document list \<Rightarrow> string" where
  "py_str_docs docs = ''['' @ py_join '', '' (map Document_repr docs) @ '']''"

section \<open>Chunking and ingestion\<close>

text \<open>
  \<open>split_documents\<close> cuts every page with the splitter's \<open>split_text\<close> (a parameter) and
  gives each piece the metadata of its page.
\<close>

definition split_documents :: "(string \<Rightarrow> string list) \<Rightarrow> Document list \<Rightarrow> Document list" where
  "split_documents split_text documents =
     concat (map (\<lambda>d. map (\<lambda>t. d\<lparr>page_content := t\<rparr>) (split_text (page_content d))) documents)"

text \<open>The ids of the cell: \<open>[f"{item.metadata['source']}-{index}" for index, item in enumerate(chunks)]\<close>.\<close>

definition chunk_ids :: "Document list \<Rightarrow> string list" where
  "chunk_ids chunks = map (\<lambda>(index, item). source item @ ''-'' @ py_str_nat index) (List.enumerate 0 chunks)"

text \<open>
  The specification's \<open>chunk_index\<close>, in its words: the position of a chunk among the
  chunks derived from the same source, starting at 0. It is stated here to be compared
  with the index the cell uses.
\<close>

definition spec_chunk_index :: "Document list \<Rightarrow> nat \<Rightarrow> nat" where
  "spec_chunk_index chunks i = length (filter (\<lambda>c. source c = source (chunks ! i)) (take i chunks))"

section \<open>The vector store\<close>

text \<open>The error taxonomy of the specification (section 7).\<close>

datatype error =
    InvalidConfig
  | InvalidArgument
  | NotFound
  | StorageError
  | EmbeddingError
  | GenerationError
  | Timeout

text \<open>
  A vector record \<open>(id, vector, text, metadata)\<close>. The vector type \<open>'v\<close> is the embedder's:
  every vector of a collection comes from the one embedder the store was built with, so
  its dimensionality is fixed by the type. A collection is the list of its records in
  insertion order; \<open>store\<close> in the notebook is bound to the one collection
  \<open>"D4DO-Embeddings"\<close>.
\<close>

record 'v VectorRecord =
  rec_id :: string
  rec_vector :: 'v
  rec_text :: string
  rec_page :: int
  rec_source :: string

type_synonym 'v collection = "'v VectorRecord list"

text \<open>
  Modelled from the spec: \<open>upsert\<close> of the vector store (section 4.2 and the Vector
  Record lifecycle of section 3), which is code of the Chroma library and not of the
  notebook. A record is inserted, or it replaces the stored record of the same id
  ("re-ingesting replaces, never duplicates"). A replaced record keeps the place of the
  record it replaces; a new one goes last.
\<close>

fun upsert_one :: "'v VectorRecord \<Rightarrow> 'v collection \<Rightarrow> 'v collection" where
  "upsert_one r [] = [r]"
| "upsert_one r (x # xs) = (if rec_id x = rec_id r then r # xs else x # upsert_one r xs)"

text \<open>
  Modelled from the spec: \<open>upsert\<close> of a sequence of records (section 4.2), one record
  after the other.
\<close>

definition upsert :: "'v collection \<Rightarrow> 'v VectorRecord list \<Rightarrow> 'v collection" where
  "upsert collection records = foldl (\<lambda>c r. upsert_one r c) collection records"

text \<open>
  Modelled from the spec: the ingestion path (section 2), behind \<open>Chroma.from_documents\<close>:
  each chunk is embedded and written to the collection as one record, under the id the
  caller gives for it, with the chunk's text and metadata.
\<close>

definition chunk_record :: "(string \<Rightarrow> 'v) \<Rightarrow> Document \<Rightarrow> string \<Rightarrow> 'v VectorRecord" where
  "chunk_record embeddings chunk ident =
     \<lparr>rec_id = ident, rec_vector = embeddings (page_content chunk), rec_text = page_content chunk,
      rec_page = page chunk, rec_source = source chunk\<rparr>"

text \<open>
  Modelled from the spec: \<open>Chroma.from_documents(chunks, embeddings, ids=...)\<close>, the write
  of the ingestion path (section 2): the records of the chunks, paired with their ids in
  order, are upserted.
\<close>

definition from_documents ::
  "'v collection \<Rightarrow> Document list \<Rightarrow> (string \<Rightarrow> 'v) \<Rightarrow> string list \<Rightarrow> 'v collection" where
  "from_documents collection chunks embeddings ids =
     upsert collection (map (\<lambda>(chunk, ident). chunk_record embeddings chunk ident) (zip chunks ids))"

text \<open>
  The ingestion cell: split the loaded pages, then store the chunks under the ids of
  \<open>chunk_ids\<close>. \<open>splitter\<close> is \<open>RecursiveCharacterTextSplitter\<close>, taken with its
  \<open>chunk_size\<close> and \<open>chunk_overlap\<close>; the notebook calls it with 150 and 50.
  \<open>collection\<close> is the state of the collection before the cell runs.
\<close>

definition ingest ::
  "(nat \<Rightarrow> nat \<Rightarrow> string \<Rightarrow> string list) \<Rightarrow> nat \<Rightarrow> nat \<Rightarrow> (string \<Rightarrow> 'v) \<Rightarrow>
   'v collection \<Rightarrow> Document list \<Rightarrow> 'v collection" where
  "ingest splitter chunk_size chunk_overlap embeddings collection documents =
     (let chunks = split_documents (splitter chunk_size chunk_overlap) documents
      in from_documents collection chunks embeddings (chunk_ids chunks))"

text \<open>The cell as the notebook runs it, with \<open>chunk_size = 150\<close> and \<open>chunk_overlap = 50\<close>.\<close>

definition notebook_ingest ::
  "(nat \<Rightarrow> nat \<Rightarrow> string \<Rightarrow> string list) \<Rightarrow> (string \<Rightarrow> 'v) \<Rightarrow>
   'v collection \<Rightarrow> Document list \<Rightarrow> 'v collection" where
  "notebook_ingest splitter embeddings collection documents =
     ingest splitter 150 50 embeddings collection documents"

text \<open>
  Modelled from the spec: \<open>query\<close> of the vector store (section 4.2), code of the Chroma
  library. \<open>k \<le> 0\<close> fails with \<open>InvalidArgument\<close>; otherwise the \<open>k\<close> records of smallest
  distance are returned, earlier-inserted first among equals, and all of them when the
  collection holds fewer than \<open>k\<close>. The distance is a parameter into a linear order
  (\<open>sort_key\<close> is a stable insertion sort).
\<close>

definition query ::
  "('v \<Rightarrow> 'v \<Rightarrow> 'd::linorder) \<Rightarrow> 'v collection \<Rightarrow> 'v \<Rightarrow> int \<Rightarrow> error + 'v VectorRecord list" where
  "query distance collection query_vector k =
     (if k \<le> 0 then Inl InvalidArgument
      else Inr (take (nat k) (sort_key (\<lambda>r. distance query_vector (rec_vector r)) collection)))"

text \<open>
  Modelled from the spec: the metric of a collection (section 4.2), code of the Chroma
  library: cosine distance, "defined as \<open>1 - (a\<cdot>b)/(|a||b|)\<close>", on vectors of real numbers.
  The vectors of a collection and of its queries come from one embedder, so they have one
  length; the quotient is that of the reals.
\<close>

definition dot :: "real list \<Rightarrow> real list \<Rightarrow> real" where
  "dot a b = sum_list (map (\<lambda>(x, y). x * y) (zip a b))"

definition vector_norm :: "real list \<Rightarrow> real" where
  "vector_norm a = sqrt (dot a a)"

definition cosine_distance :: "real list \<Rightarrow> real list \<Rightarrow> real" where
  "cosine_distance a b = 1 - dot a b / (vector_norm a * vector_norm b)"

text \<open>
  Modelled from the spec: the retriever (section 4.3), which is code of the LangChain and
  Chroma libraries behind \<open>store.similarity_search(query, k)\<close>: the question is embedded,
  the collection is queried, and every record found is handed back as a Document.
\<close>

definition record_document :: "'v VectorRecord \<Rightarrow> Document" where
  "record_document r = \<lparr>page_content = rec_text r, page = rec_page r, source = rec_source r\<rparr>"

definition similarity_search ::
  "('v \<Rightarrow> 'v \<Rightarrow> 'd::linorder) \<Rightarrow> (string \<Rightarrow> 'v) \<Rightarrow> 'v collection \<Rightarrow> string \<Rightarrow> int \<Rightarrow>
   error + Document list" where
  "similarity_search distance embeddings collection question k =
     (case query distance collection (embeddings question) k of
        Inl e \<Rightarrow> Inl e
      | Inr records \<Rightarrow> Inr (map record_document records))"

text \<open>
  Modelled from the spec: the default \<open>k\<close> (section 4.3: "source used k=4 implicitly via
  default retriever settings"). The constant is the library's; the notebook calls
  \<open>store.as_retriever()\<close> with no arguments, and each recorded result lists four
  documents.
\<close>

definition DEFAULT_K :: int where
  "DEFAULT_K = 4"

text \<open>
  Modelled from the spec: \<open>store.as_retriever()\<close> with no arguments, a similarity search
  for the default \<open>k\<close> (section 4.3).
\<close>

definition as_retriever ::
  "('v \<Rightarrow> 'v \<Rightarrow> 'd::linorder) \<Rightarrow> (string \<Rightarrow> 'v) \<Rightarrow> 'v collection \<Rightarrow> string \<Rightarrow> error + Document list" where
  "as_retriever distance embeddings collection question =
     similarity_search distance embeddings collection question DEFAULT_K"

section \<open>The prompt and the chain\<close>

text \<open>The three literal parts of \<open>prompt_template\<close>, around its slots \<open>{context}\<close> and \<open>{question}\<close>.\<close>

definition prompt_template_head :: string where
  "prompt_template_head =
     ''\<newline>### [INST] \<newline>Instruction: Answer the question based on your \<newline>designed4devops knowledge. Don't make up answers, just say there is no answer in the book. Here is context to help:\<newline>\<newline>''"

definition prompt_template_mid :: string where
  "prompt_template_mid = ''\<newline>\<newline>### QUESTION:\<newline>''"

definition prompt_template_tail :: string where
  "prompt_template_tail = '' \<newline>\<newline>[/INST]\<newline> ''"

text \<open>\<open>prompt.format(context=..., question=...)\<close> on the texts put into the two slots.\<close>

definition prompt_format :: "string \<Rightarrow> string \<Rightarrow> string" where
  "prompt_format context_text question_text =
     prompt_template_head @ context_text @ prompt_template_mid @ question_text @ prompt_template_tail"

text \<open>
  The prompt of \<open>llm_chain\<close>: the value under \<open>context\<close> is the retriever's list of
  Documents, and formatting a list into the template writes its \<open>str\<close>.
\<close>

definition llm_chain_prompt :: "Document list \<Rightarrow> string \<Rightarrow> string" where
  "llm_chain_prompt docs question_text = prompt_format (py_str_docs docs) question_text"

text \<open>
  The text-generation pipeline. \<open>generate\<close> is the language model: the text of the newly
  generated tokens for a prompt. With \<open>return_full_text\<close> the pipeline returns the prompt
  followed by that text, and the new text alone without it. The notebook sets
  \<open>return_full_text=True\<close>, and \<open>HuggingFacePipeline\<close> hands the pipeline's text on as it
  is (the recorded \<open>'text'\<close> values start with the prompt).
\<close>

definition text_generation_pipeline :: "bool \<Rightarrow> (string \<Rightarrow> string) \<Rightarrow> string \<Rightarrow> string" where
  "text_generation_pipeline return_full_text generate prompt_text =
     (if return_full_text then prompt_text @ generate prompt_text else generate prompt_text)"

definition mistral_llm :: "(string \<Rightarrow> string) \<Rightarrow> string \<Rightarrow> string" where
  "mistral_llm generate prompt_text = text_generation_pipeline True generate prompt_text"

text \<open>
  The dict \<open>rag_chain.invoke\<close> returns: the inputs of \<open>llm_chain\<close> under \<open>'context'\<close> and
  \<open>'question'\<close>, and the output of the language model under \<open>'text'\<close>.
\<close>

record chain_result =
  result_context :: "Document list"
  result_question :: string
  result_text :: string

definition llm_chain :: "(string \<Rightarrow> string) \<Rightarrow> Document list \<Rightarrow> string \<Rightarrow> chain_result" where
  "llm_chain generate docs question_text =
     \<lparr>result_context = docs, result_question = question_text,
      result_text = mistral_llm generate (llm_chain_prompt docs question_text)\<rparr>"

text \<open>
  \<open>rag_chain\<close>: the question goes to the retriever, whose Documents fill \<open>context\<close>, and
  unchanged to \<open>question\<close>; both go to \<open>llm_chain\<close>. The retriever is the component the
  chain is built from: it takes the question to the Documents it finds, or to the error
  it raises, which ends the call.
\<close>

definition rag_chain ::
  "(string \<Rightarrow> 'e + Document list) \<Rightarrow> (string \<Rightarrow> string) \<Rightarrow> string \<Rightarrow> 'e + chain_result" where
  "rag_chain retriever generate question_text =
     (case retriever question_text of
        Inl e \<Rightarrow> Inl e
      | Inr docs \<Rightarrow> Inr (llm_chain generate docs question_text))"

section \<open>The prompt assembler of the specification, for comparison\<close>

text \<open>
  The specification's \<open>context\<close> (section 4.4), in its words: the passages in ranked
  order, each as its raw text, with a delimiter between them.
\<close>

definition spec_context :: "string \<Rightarrow> Document list \<Rightarrow> string" where
  "spec_context delimiter docs = py_join delimiter (map page_content docs)"

text \<open>
  The specification's budget rule (section 4.4), in its words: while the context is
  longer than the maximum, the lowest-ranked passage is dropped; the top-1 passage always
  stays. The length measured is that of the context as the chain renders it.
\<close>

function spec_drop_to_budget :: "nat \<Rightarrow> Document list \<Rightarrow> Document list" where
  "spec_drop_to_budget maximum docs =
     (if length docs \<le> 1 \<or> length (py_str_docs docs) \<le> maximum then docs
      else spec_drop_to_budget maximum (butlast docs))"
  by pat_completeness auto
termination
  by (relation "measure (\<lambda>(maximum, docs). length docs)") auto

declare spec_drop_to_budget.simps [simp del]

section \<open>Decimal numerals are injective and have no dash\<close>

lemma of_char_digit_char: "d < 10 \<Longrightarrow> (of_char (digit_char d) :: nat) = 48 + d"
  by (simp add: digit_char_def)

lemma digit_char_inj: "a < 10 \<Longrightarrow> b < 10 \<Longrightarrow> digit_char a = digit_char b \<Longrightarrow> a = b"
proof -
  assume a: "a < 10" and b: "b < 10" and e: "digit_char a = digit_char b"
  from e have "(of_char (digit_char a) :: nat) = of_char (digit_char b)" by simp
  with a b show "a = b" by (simp add: of_char_digit_char)
qed

lemma digit_char_not_dash: "d < 10 \<Longrightarrow> digit_char d \<noteq> CHR ''-''"
proof
  assume d: "d < 10" and e: "digit_char d = CHR ''-''"
  from e have "(of_char (digit_char d) :: nat) = of_char (CHR ''-'')" by simp
  with d show False by (simp add: of_char_digit_char)
qed

lemma py_str_nat_not_Nil: "py_str_nat n \<noteq> []"
  by (subst py_str_nat.simps) simp

lemma dash_notin_py_str_nat: "CHR ''-'' \<notin> set (py_str_nat n)"
proof (induction n rule: py_str_nat.induct)
  case (1 n)
  show ?case
  proof (cases "n < 10")
    case True
    then show ?thesis
      using digit_char_not_dash [of n] by (subst py_str_nat.simps) auto
  next
    case False
    moreover have "n mod 10 < 10" by simp
    ultimately show ?thesis
      using "1.IH" digit_char_not_dash [of "n mod 10"]
      by (subst py_str_nat.simps) auto
  qed
qed

lemma py_str_nat_inj: "py_str_nat n = py_str_nat m \<Longrightarrow> n = m"
proof (induction n arbitrary: m rule: py_str_nat.induct)
  case (1 n)
  show ?case
  proof (cases "n < 10")
    case n: True
    show ?thesis
    proof (cases "m < 10")
      case True
      with n "1.prems" show ?thesis
        by (simp add: py_str_nat.simps [of n] py_str_nat.simps [of m] digit_char_inj)
    next
      case False
      then have "py_str_nat m = py_str_nat (m div 10) @ [digit_char (m mod 10)]"
        by (subst py_str_nat.simps) simp
      moreover from n have "py_str_nat n = [digit_char n]" by (subst py_str_nat.simps) simp
      ultimately show ?thesis
        using "1.prems" py_str_nat_not_Nil [of "m div 10"] by simp
    qed
  next
    case n: False
    then have en: "py_str_nat n = py_str_nat (n div 10) @ [digit_char (n mod 10)]"
      by (subst py_str_nat.simps) simp
    show ?thesis
    proof (cases "m < 10")
      case True
      then have "py_str_nat m = [digit_char m]" by (subst py_str_nat.simps) simp
      with en show ?thesis
        using "1.prems" py_str_nat_not_Nil [of "n div 10"] by simp
    next
      case False
      then have em: "py_str_nat m = py_str_nat (m div 10) @ [digit_char (m mod 10)]"
        by (subst py_str_nat.simps) simp
      from en em "1.prems"
      have q: "py_str_nat (n div 10) = py_str_nat (m div 10)"
        and r: "digit_char (n mod 10) = digit_char (m mod 10)"
        by simp_all
      from q n have "n div 10 = m div 10" by (rule "1.IH" [rotated])
      moreover from r have "n mod 10 = m mod 10" by (rule digit_char_inj [rotated 2]) simp_all
      ultimately show ?thesis by (metis div_mult_mod_eq)
    qed
  qed
qed

lemma suffix_after_last_dash:
  assumes "a @ CHR ''-'' # x = b @ CHR ''-'' # y"
    and "CHR ''-'' \<notin> set x" and "CHR ''-'' \<notin> set y"
  shows "x = y"
  using assms
proof (induction a arbitrary: b)
  case Nil
  then show ?case by (cases b) auto
next
  case (Cons c a)
  then show ?case by (cases b) auto
qed

lemma length_chunk_ids: "length (chunk_ids chunks) = length chunks"
  by (simp add: chunk_ids_def)

lemma nth_chunk_ids:
  "i < length chunks \<Longrightarrow> chunk_ids chunks ! i = source (chunks ! i) @ ''-'' @ py_str_nat i"
  by (simp add: chunk_ids_def nth_enumerate_eq)

lemma distinct_chunk_ids: "distinct (chunk_ids chunks)"
proof (rule iffD2 [OF distinct_conv_nth], intro allI impI)
  fix i j
  assume i: "i < length (chunk_ids chunks)" and j: "j < length (chunk_ids chunks)" and ne: "i \<noteq> j"
  show "chunk_ids chunks ! i \<noteq> chunk_ids chunks ! j"
  proof
    assume "chunk_ids chunks ! i = chunk_ids chunks ! j"
    with i j have "source (chunks ! i) @ CHR ''-'' # py_str_nat i = source (chunks ! j) @ CHR ''-'' # py_str_nat j"
      by (simp add: length_chunk_ids nth_chunk_ids)
    then have "py_str_nat i = py_str_nat j"
      by (rule suffix_after_last_dash) (rule dash_notin_py_str_nat)+
    with ne show False by (simp add: py_str_nat_inj)
  qed
qed

lemma spec_chunk_index_one_source:
  assumes "i < length chunks" and "\<forall>c\<in>set chunks. source c = s"
  shows "spec_chunk_index chunks i = i"
proof -
  from assms have "filter (\<lambda>c. source c = source (chunks ! i)) (take i chunks) = take i chunks"
    by (auto simp: filter_id_conv dest: in_set_takeD)
  with assms(1) show ?thesis by (simp add: spec_chunk_index_def)
qed

lemma source_split_documents:
  "c \<in> set (split_documents split_text documents) \<Longrightarrow> \<exists>d\<in>set documents. source c = source d"
  by (auto simp: split_documents_def)

lemma py_str_nat_2: "py_str_nat 2 = ''2''"
  by code_simp

section \<open>Chunk ids\<close>

text \<open>
  C4: the pages the notebook loads are those of one PDF, so they carry one source, and
  every chunk inherits the source of its page. For every such document and every
  splitter, the id of each chunk is its source, a dash, and the decimal \<open>chunk_index\<close>
  of the chunk, its position among the chunks of the same source; that position is the
  position \<open>enumerate\<close> gives, so it starts at 0 and grows by one from each chunk to the
  next; and all ids of the run are distinct.
\<close>

theorem chunk_ids_per_source_index:
  assumes "\<forall>d\<in>set documents. source d = s"
  shows "length (chunk_ids (split_documents split_text documents))
           = length (split_documents split_text documents) \<and>
         distinct (chunk_ids (split_documents split_text documents)) \<and>
         (\<forall>i<length (split_documents split_text documents).
            source (split_documents split_text documents ! i) = s \<and>
            chunk_ids (split_documents split_text documents) ! i
              = source (split_documents split_text documents ! i) @ ''-'' @
                py_str_nat (spec_chunk_index (split_documents split_text documents) i) \<and>
            spec_chunk_index (split_documents split_text documents) i = i) \<and>
         (split_documents split_text documents \<noteq> [] \<longrightarrow>
            spec_chunk_index (split_documents split_text documents) 0 = 0) \<and>
         (\<forall>i. Suc i < length (split_documents split_text documents) \<longrightarrow>
            spec_chunk_index (split_documents split_text documents) (Suc i)
              = Suc (spec_chunk_index (split_documents split_text documents) i))"
proof -
  let ?chunks = "split_documents split_text documents"
  have all: "\<forall>c\<in>set ?chunks. source c = s"
  proof
    fix c assume "c \<in> set ?chunks"
    then obtain d where "d \<in> set documents" and "source c = source d"
      using source_split_documents by blast
    with assms show "source c = s" by simp
  qed
  have pos: "spec_chunk_index ?chunks i = i" if "i < length ?chunks" for i
    using that all by (rule spec_chunk_index_one_source)
  have each: "\<forall>i<length ?chunks.
      source (?chunks ! i) = s \<and>
      chunk_ids ?chunks ! i = source (?chunks ! i) @ ''-'' @ py_str_nat (spec_chunk_index ?chunks i) \<and>
      spec_chunk_index ?chunks i = i"
  proof (intro allI impI conjI)
    fix i assume i: "i < length ?chunks"
    then have "?chunks ! i \<in> set ?chunks" by simp
    with all show "source (?chunks ! i) = s" by blast
    from i show "chunk_ids ?chunks ! i
        = source (?chunks ! i) @ ''-'' @ py_str_nat (spec_chunk_index ?chunks i)"
      by (simp only: pos nth_chunk_ids)
    from i show "spec_chunk_index ?chunks i = i" by (rule pos)
  qed
  have first: "?chunks \<noteq> [] \<longrightarrow> spec_chunk_index ?chunks 0 = 0"
    by (simp add: pos)
  have step: "\<forall>i. Suc i < length ?chunks \<longrightarrow>
      spec_chunk_index ?chunks (Suc i) = Suc (spec_chunk_index ?chunks i)"
    by (simp add: pos)
  from length_chunk_ids [of ?chunks] distinct_chunk_ids [of ?chunks] each first step
  show ?thesis by (intro conjI)
qed

text \<open>C4 at two pages of one source, cut into four chunks: the third chunk.\<close>

theorem chunk_ids_per_source_index_witness:
  "distinct (chunk_ids (split_documents (\<lambda>t. [take 2 t, drop 1 t])
        [\<lparr>page_content = ''abc'', page = 0, source = ''doc''\<rparr>,
         \<lparr>page_content = ''def'', page = 1, source = ''doc''\<rparr>]))
   \<and> spec_chunk_index (split_documents (\<lambda>t. [take 2 t, drop 1 t])
        [\<lparr>page_content = ''abc'', page = 0, source = ''doc''\<rparr>,
         \<lparr>page_content = ''def'', page = 1, source = ''doc''\<rparr>]) 2 = 2
   \<and> chunk_ids (split_documents (\<lambda>t. [take 2 t, drop 1 t])
        [\<lparr>page_content = ''abc'', page = 0, source = ''doc''\<rparr>,
         \<lparr>page_content = ''def'', page = 1, source = ''doc''\<rparr>]) ! 2 = ''doc-2''"
proof -
  let ?pages = "[\<lparr>page_content = ''abc'', page = 0, source = ''doc''\<rparr>,
         \<lparr>page_content = ''def'', page = 1, source = ''doc''\<rparr>]"
  let ?split = "\<lambda>t::string. [take 2 t, drop 1 t]"
  let ?chunks = "split_documents ?split ?pages"
  have one_pdf: "\<forall>d\<in>set ?pages. source d = ''doc''" by simp
  have in_chunks: "(2::nat) < length ?chunks" by (simp add: split_documents_def)
  note run = chunk_ids_per_source_index [of ?pages "''doc''" ?split, OF one_pdf]
  note d = run [THEN conjunct2, THEN conjunct1]
  note at2 = run [THEN conjunct2, THEN conjunct2, THEN conjunct1, THEN spec, of 2, THEN mp,
    OF in_chunks]
  note src = at2 [THEN conjunct1]
  note ident = at2 [THEN conjunct2, THEN conjunct1]
  note pos = at2 [THEN conjunct2, THEN conjunct2]
  from ident have "chunk_ids ?chunks ! 2 = ''doc-2''"
    by (simp only: src pos py_str_nat_2 append.simps)
  with d pos show ?thesis by (intro conjI)
qed

section \<open>Upsert\<close>

text \<open>
  What \<open>upsert\<close> does to the first record of an id, which is the record a later
  \<open>upsert\<close> of that id replaces.
\<close>

lemma find_upsert_one_same:
  "find (\<lambda>x. rec_id x = rec_id r) (upsert_one r c) = Some r"
  by (induction c) auto

lemma find_upsert_one_other:
  "rec_id r \<noteq> i \<Longrightarrow> find (\<lambda>x. rec_id x = i) (upsert_one r c) = find (\<lambda>x. rec_id x = i) c"
  by (induction c) auto

lemma upsert_one_present:
  "find (\<lambda>x. rec_id x = rec_id r) c = Some r \<Longrightarrow> upsert_one r c = c"
  by (induction c) (auto split: if_splits)

lemma ids_upsert_one: "rec_id ` set (upsert_one r c) = insert (rec_id r) (rec_id ` set c)"
  by (induction c) auto

lemma upsert_one_fresh: "rec_id r \<notin> rec_id ` set c \<Longrightarrow> upsert_one r c = c @ [r]"
  by (induction c) auto

lemma upsert_Nil: "upsert c [] = c"
  by (simp add: upsert_def)

lemma upsert_Cons: "upsert c (r # rs) = upsert (upsert_one r c) rs"
  by (simp add: upsert_def)

lemma find_upsert_other:
  "i \<notin> rec_id ` set rs \<Longrightarrow> find (\<lambda>x. rec_id x = i) (upsert c rs) = find (\<lambda>x. rec_id x = i) c"
proof (induction rs arbitrary: c)
  case Nil
  show ?case by (simp add: upsert_Nil)
next
  case (Cons r rs)
  from Cons.prems have "rec_id r \<noteq> i" and "i \<notin> rec_id ` set rs" by auto
  then show ?case
    by (simp add: upsert_Cons Cons.IH find_upsert_one_other)
qed

lemma find_upsert_same:
  "distinct (map rec_id rs) \<Longrightarrow> r \<in> set rs \<Longrightarrow>
   find (\<lambda>x. rec_id x = rec_id r) (upsert c rs) = Some r"
proof (induction rs arbitrary: c)
  case Nil
  then show ?case by simp
next
  case (Cons a rs)
  show ?case
  proof (cases "r = a")
    case True
    with Cons.prems have "rec_id r \<notin> rec_id ` set rs" by simp
    then show ?thesis
      using True by (simp add: upsert_Cons find_upsert_other find_upsert_one_same)
  next
    case False
    with Cons.prems have "r \<in> set rs" and "distinct (map rec_id rs)" by simp_all
    then show ?thesis
      by (simp add: upsert_Cons Cons.IH)
  qed
qed

lemma upsert_all_present:
  "(\<And>r. r \<in> set rs \<Longrightarrow> find (\<lambda>x. rec_id x = rec_id r) c = Some r) \<Longrightarrow> upsert c rs = c"
proof (induction rs)
  case Nil
  show ?case by (simp add: upsert_Nil)
next
  case (Cons a rs)
  have "upsert_one a c = c"
    by (rule upsert_one_present) (simp add: Cons.prems)
  moreover have "upsert c rs = c"
    by (rule Cons.IH) (simp add: Cons.prems)
  ultimately show ?case by (simp add: upsert_Cons)
qed

lemma upsert_twice:
  "distinct (map rec_id rs) \<Longrightarrow> upsert (upsert c rs) rs = upsert c rs"
  by (rule upsert_all_present) (rule find_upsert_same)

lemma ids_upsert: "rec_id ` set (upsert c rs) = rec_id ` set c \<union> rec_id ` set rs"
  by (induction rs arbitrary: c) (auto simp: upsert_Nil upsert_Cons ids_upsert_one)

lemma upsert_fresh:
  "distinct (map rec_id rs) \<Longrightarrow> rec_id ` set rs \<inter> rec_id ` set c = {} \<Longrightarrow> upsert c rs = c @ rs"
proof (induction rs arbitrary: c)
  case Nil
  show ?case by (simp add: upsert_Nil)
next
  case (Cons r rs)
  from Cons.prems have fresh: "rec_id r \<notin> rec_id ` set c" by auto
  from Cons.prems have "distinct (map rec_id rs)"
    and "rec_id ` set rs \<inter> rec_id ` set (c @ [r]) = {}" by auto
  then have "upsert (c @ [r]) rs = (c @ [r]) @ rs" by (rule Cons.IH)
  with fresh show ?case by (simp add: upsert_Cons upsert_one_fresh)
qed

section \<open>Ingestion\<close>

lemma rec_id_chunk_records:
  "length ids = length chunks \<Longrightarrow>
   map rec_id (map (\<lambda>(chunk, ident). chunk_record embeddings chunk ident) (zip chunks ids)) = ids"
proof -
  assume len: "length ids = length chunks"
  have "map rec_id (map (\<lambda>(chunk, ident). chunk_record embeddings chunk ident) (zip chunks ids))
        = map snd (zip chunks ids)"
    by (simp add: chunk_record_def case_prod_unfold)
  with len show ?thesis by simp
qed

lemma from_documents_twice:
  assumes "length ids = length chunks" and "distinct ids"
  shows "from_documents (from_documents c chunks embeddings ids) chunks embeddings ids
         = from_documents c chunks embeddings ids"
  unfolding from_documents_def
  by (rule upsert_twice) (simp only: rec_id_chunk_records [OF assms(1)] assms(2))

lemma ids_from_documents:
  assumes "length ids = length chunks"
  shows "rec_id ` set (from_documents c chunks embeddings ids) = rec_id ` set c \<union> set ids"
proof -
  have "rec_id ` set (map (\<lambda>(chunk, ident). chunk_record embeddings chunk ident) (zip chunks ids))
        = set (map rec_id (map (\<lambda>(chunk, ident). chunk_record embeddings chunk ident) (zip chunks ids)))"
    by (simp only: set_map)
  also have "\<dots> = set ids" by (simp only: rec_id_chunk_records [OF assms])
  finally show ?thesis by (simp only: from_documents_def ids_upsert)
qed

lemma ingest_twice:
  "ingest splitter chunk_size chunk_overlap embeddings
     (ingest splitter chunk_size chunk_overlap embeddings c documents) documents
   = ingest splitter chunk_size chunk_overlap embeddings c documents"
  by (simp add: ingest_def Let_def from_documents_twice length_chunk_ids distinct_chunk_ids)

lemma ids_ingest:
  "rec_id ` set (ingest splitter chunk_size chunk_overlap embeddings c documents)
   = rec_id ` set c \<union> set (chunk_ids (split_documents (splitter chunk_size chunk_overlap) documents))"
  by (simp add: ingest_def Let_def ids_from_documents length_chunk_ids)

lemma ids_first_ingest:
  "map rec_id (ingest splitter chunk_size chunk_overlap embeddings [] documents)
   = chunk_ids (split_documents (splitter chunk_size chunk_overlap) documents)"
proof -
  let ?chunks = "split_documents (splitter chunk_size chunk_overlap) documents"
  let ?rs = "map (\<lambda>(chunk, ident). chunk_record embeddings chunk ident) (zip ?chunks (chunk_ids ?chunks))"
  have ids: "map rec_id ?rs = chunk_ids ?chunks"
    by (rule rec_id_chunk_records) (rule length_chunk_ids)
  then have "distinct (map rec_id ?rs)" by (simp only: distinct_chunk_ids)
  then have "upsert [] ?rs = [] @ ?rs" by (rule upsert_fresh) simp
  with ids show ?thesis by (simp add: ingest_def Let_def from_documents_def)
qed

lemma texts_first_ingest:
  "map rec_text (ingest splitter chunk_size chunk_overlap embeddings [] documents)
   = map page_content (split_documents (splitter chunk_size chunk_overlap) documents)"
proof -
  let ?chunks = "split_documents (splitter chunk_size chunk_overlap) documents"
  let ?rs = "map (\<lambda>(chunk, ident). chunk_record embeddings chunk ident) (zip ?chunks (chunk_ids ?chunks))"
  have "map rec_id ?rs = chunk_ids ?chunks"
    by (rule rec_id_chunk_records) (rule length_chunk_ids)
  then have "distinct (map rec_id ?rs)" by (simp only: distinct_chunk_ids)
  then have stored: "upsert [] ?rs = [] @ ?rs" by (rule upsert_fresh) simp
  have "map rec_text ?rs = map (page_content \<circ> fst) (zip ?chunks (chunk_ids ?chunks))"
    by (simp add: chunk_record_def case_prod_unfold comp_def)
  also have "\<dots> = map page_content (map fst (zip ?chunks (chunk_ids ?chunks)))" by simp
  also have "\<dots> = map page_content ?chunks" by (simp add: length_chunk_ids)
  finally show ?thesis using stored by (simp add: ingest_def Let_def from_documents_def)
qed

text \<open>
  C3: ingestion is idempotent. Whatever the splitter, its parameters, the embedder and the
  state of the collection, ingesting the same pages a second time leaves the collection as
  the first ingestion left it: the same records, hence the same number of distinct ids and
  the same stored content. The ids in the collection are those it held before and the ids
  of the chunks, which the second run regenerates, and a first ingestion into an empty
  collection stores one record per chunk, in order, under the chunk's id and with the
  chunk's text. The same holds for the notebook's
  parameters 150 and 50. Here \<open>upsert\<close> is the specification's; the ids are the cell's.
\<close>

theorem ingest_idempotent:
  "ingest splitter chunk_size chunk_overlap embeddings
     (ingest splitter chunk_size chunk_overlap embeddings collection documents) documents
   = ingest splitter chunk_size chunk_overlap embeddings collection documents
   \<and> card (rec_id ` set (ingest splitter chunk_size chunk_overlap embeddings
        (ingest splitter chunk_size chunk_overlap embeddings collection documents) documents))
     = card (rec_id ` set (ingest splitter chunk_size chunk_overlap embeddings collection documents))
   \<and> rec_id ` set (ingest splitter chunk_size chunk_overlap embeddings collection documents)
     = rec_id ` set collection
       \<union> set (chunk_ids (split_documents (splitter chunk_size chunk_overlap) documents))
   \<and> map rec_id (ingest splitter chunk_size chunk_overlap embeddings [] documents)
     = chunk_ids (split_documents (splitter chunk_size chunk_overlap) documents)
   \<and> map rec_text (ingest splitter chunk_size chunk_overlap embeddings [] documents)
     = map page_content (split_documents (splitter chunk_size chunk_overlap) documents)
   \<and> notebook_ingest splitter embeddings (notebook_ingest splitter embeddings collection documents) documents
     = notebook_ingest splitter embeddings collection documents"
  by (simp only: ingest_twice ids_ingest ids_first_ingest texts_first_ingest notebook_ingest_def
      simp_thms)

section \<open>Retrieval\<close>

lemma as_retriever_Inr:
  "as_retriever distance embeddings collection q
   = Inr (map record_document
       (take 4 (sort_key (\<lambda>r. distance (embeddings q) (rec_vector r)) collection)))"
  by (simp add: as_retriever_def similarity_search_def query_def DEFAULT_K_def)

lemma rag_chain_Inr:
  "retriever q = Inr docs \<Longrightarrow> rag_chain retriever generate q = Inr (llm_chain generate docs q)"
  by (simp add: rag_chain_def)



text \<open>
  An example with a tie: the query vector \<open>[1, 0]\<close> is at cosine distance 0 from the
  second and the fourth record, at 2/5 from the third and at 1 from the first; for
  \<open>k = 2\<close> the two at distance 0 come back, the earlier-inserted first.
\<close>

lemma query_cosine_example:
  "query cosine_distance
     [\<lparr>rec_id = ''doc-0'', rec_vector = [0, 1], rec_text = ''a'', rec_page = 0, rec_source = ''doc''\<rparr>,
      \<lparr>rec_id = ''doc-1'', rec_vector = [1, 0], rec_text = ''b'', rec_page = 0, rec_source = ''doc''\<rparr>,
      \<lparr>rec_id = ''doc-2'', rec_vector = [3, 4], rec_text = ''c'', rec_page = 1, rec_source = ''doc''\<rparr>,
      \<lparr>rec_id = ''doc-3'', rec_vector = [2, 0], rec_text = ''d'', rec_page = 1, rec_source = ''doc''\<rparr>]
     [1, 0] 2
   = Inr [\<lparr>rec_id = ''doc-1'', rec_vector = [1, 0], rec_text = ''b'', rec_page = 0, rec_source = ''doc''\<rparr>,
          \<lparr>rec_id = ''doc-3'', rec_vector = [2, 0], rec_text = ''d'', rec_page = 1, rec_source = ''doc''\<rparr>]"
  by (simp add: query_def cosine_distance_def vector_norm_def dot_def real_sqrt_mult)



text \<open>
  C8: the retriever of \<open>store.as_retriever()\<close> asks for the default \<open>k = 4\<close>. For every
  question and collection it returns, without error, the Documents of the records \<open>query\<close>
  finds: records of the collection, in order of increasing distance to the embedded
  question, as many as the collection holds up to 4; never more than 4, and exactly 4
  when the collection holds at least 4. Here \<open>query\<close> and the default are the
  specification's.
\<close>

theorem retriever_default_k:
  "\<exists>records docs.
     query distance collection (embeddings q) DEFAULT_K = Inr records \<and>
     as_retriever distance embeddings collection q = Inr docs \<and>
     docs = map record_document records \<and>
     DEFAULT_K = 4 \<and>
     sorted (map (\<lambda>r. distance (embeddings q) (rec_vector r)) records) \<and>
     set records \<subseteq> set collection \<and>
     length docs = min 4 (length collection) \<and>
     length docs \<le> 4 \<and>
     (4 \<le> length collection \<longrightarrow> length docs = 4)"
proof -
  let ?f = "\<lambda>r. distance (embeddings q) (rec_vector r)"
  let ?records = "take 4 (sort_key ?f collection)"
  have "query distance collection (embeddings q) DEFAULT_K = Inr ?records"
    by (simp add: query_def DEFAULT_K_def)
  moreover have "as_retriever distance embeddings collection q = Inr (map record_document ?records)"
    by (rule as_retriever_Inr)
  moreover have "DEFAULT_K = 4" by (rule DEFAULT_K_def)
  moreover have "sorted (map ?f ?records)"
  proof -
    have "sorted (map ?f (sort_key ?f collection))" by (rule sorted_sort_key)
    then have "sorted (take 4 (map ?f (sort_key ?f collection)))" by (rule sorted_wrt_take)
    then show ?thesis by (simp only: take_map)
  qed
  moreover have "set ?records \<subseteq> set collection"
    using set_take_subset [of 4 "sort_key ?f collection"] by simp
  moreover have "length (map record_document ?records) = min 4 (length collection)"
    by simp
  ultimately show ?thesis by (intro exI [of _ ?records] exI [of _ "map record_document ?records"]) auto
qed

text \<open>C8 at a collection of five records: four documents come back.\<close>

theorem retriever_default_k_witness:
  "\<exists>docs. as_retriever (\<lambda>a b. if a \<le> b then b - a else a - b) length
       [\<lparr>rec_id = ''doc-0'', rec_vector = 9::nat, rec_text = ''a'', rec_page = 0, rec_source = ''doc''\<rparr>,
        \<lparr>rec_id = ''doc-1'', rec_vector = 2, rec_text = ''b'', rec_page = 0, rec_source = ''doc''\<rparr>,
        \<lparr>rec_id = ''doc-2'', rec_vector = 7, rec_text = ''c'', rec_page = 1, rec_source = ''doc''\<rparr>,
        \<lparr>rec_id = ''doc-3'', rec_vector = 3, rec_text = ''d'', rec_page = 1, rec_source = ''doc''\<rparr>,
        \<lparr>rec_id = ''doc-4'', rec_vector = 5, rec_text = ''e'', rec_page = 2, rec_source = ''doc''\<rparr>]
       ''why'' = Inr docs \<and> length docs = 4"
proof -
  let ?c = "[\<lparr>rec_id = ''doc-0'', rec_vector = 9::nat, rec_text = ''a'', rec_page = 0, rec_source = ''doc''\<rparr>,
        \<lparr>rec_id = ''doc-1'', rec_vector = 2, rec_text = ''b'', rec_page = 0, rec_source = ''doc''\<rparr>,
        \<lparr>rec_id = ''doc-2'', rec_vector = 7, rec_text = ''c'', rec_page = 1, rec_source = ''doc''\<rparr>,
        \<lparr>rec_id = ''doc-3'', rec_vector = 3, rec_text = ''d'', rec_page = 1, rec_source = ''doc''\<rparr>,
        \<lparr>rec_id = ''doc-4'', rec_vector = 5, rec_text = ''e'', rec_page = 2, rec_source = ''doc''\<rparr>]"
  from retriever_default_k
    [where distance = "\<lambda>a b::nat. if a \<le> b then b - a else a - b" and embeddings = length
       and collection = ?c and q = "''why''"]
  obtain docs where ret: "as_retriever (\<lambda>a b::nat. if a \<le> b then b - a else a - b) length ?c ''why'' = Inr docs"
    and four: "4 \<le> length ?c \<longrightarrow> length docs = 4"
    by blast
  have "4 \<le> length ?c" by simp
  with four have "length docs = 4" by (rule mp)
  with ret show ?thesis by blast
qed

section \<open>The assembled prompt\<close>

lemma sublist_py_join: "x \<in> set xs \<Longrightarrow> sublist x (py_join sep xs)"
proof (induction sep xs rule: py_join.induct)
  case (1 sep)
  then show ?case by simp
next
  case (2 sep y)
  then show ?case by simp
next
  case (3 sep y z zs)
  show ?case
  proof (cases "x = y")
    case True
    then show ?thesis by simp
  next
    case False
    with "3.prems" have "x \<in> set (z # zs)" by simp
    then have "sublist x (py_join sep (z # zs))" by (rule "3.IH")
    then obtain ps ss where "py_join sep (z # zs) = ps @ x @ ss"
      by (auto simp: sublist_def)
    then have "py_join sep (y # z # zs) = (y @ sep @ ps) @ x @ ss" by simp
    then show ?thesis unfolding sublist_def by blast
  qed
qed

lemma sublist_Document_repr_prompt:
  "d \<in> set docs \<Longrightarrow> sublist (Document_repr d) (llm_chain_prompt docs q)"
proof -
  assume "d \<in> set docs"
  then have "Document_repr d \<in> set (map Document_repr docs)" by simp
  then have "sublist (Document_repr d) (py_join '', '' (map Document_repr docs))"
    by (rule sublist_py_join)
  then obtain ps ss where "py_join '', '' (map Document_repr docs) = ps @ Document_repr d @ ss"
    by (auto simp: sublist_def)
  then have "llm_chain_prompt docs q
      = (prompt_template_head @ ''['' @ ps) @ Document_repr d
        @ (ss @ '']'' @ prompt_template_mid @ q @ prompt_template_tail)"
    by (simp add: llm_chain_prompt_def prompt_format_def py_str_docs_def)
  then show ?thesis unfolding sublist_def by blast
qed

lemma sublist_question_prompt: "sublist q (llm_chain_prompt docs q)"
proof -
  have "llm_chain_prompt docs q
      = (prompt_template_head @ py_str_docs docs @ prompt_template_mid) @ q @ prompt_template_tail"
    by (simp add: llm_chain_prompt_def prompt_format_def)
  then show ?thesis unfolding sublist_def by blast
qed

lemma sublist_source_Document_repr: "sublist (py_repr_str (source d)) (Document_repr d)"
proof -
  have "Document_repr d
      = (''Document(page_content='' @ py_repr_str (page_content d) @
         '', metadata={'page': '' @ py_str_int (page d) @ '', 'source': '')
        @ py_repr_str (source d) @ ''})''"
    by (simp add: Document_repr_def)
  then show ?thesis unfolding sublist_def by blast
qed

lemma sublist_page_Document_repr: "sublist (py_str_int (page d)) (Document_repr d)"
proof -
  have "Document_repr d
      = (''Document(page_content='' @ py_repr_str (page_content d) @ '', metadata={'page': '')
        @ py_str_int (page d) @ ('', 'source': '' @ py_repr_str (source d) @ ''})'')"
    by (simp add: Document_repr_def)
  then show ?thesis unfolding sublist_def by blast
qed

lemma prompt_template_head_not_Nil: "prompt_template_head \<noteq> []"
  by (simp add: prompt_template_head_def)

lemma result_text_llm_chain:
  "result_text (llm_chain generate docs q)
   = llm_chain_prompt docs q @ generate (llm_chain_prompt docs q)"
  by (simp add: llm_chain_def mistral_llm_def text_generation_pipeline_def)

text \<open>
  The model against two results recorded in the notebook: with the four Documents and the
  question of the recorded \<open>'context'\<close> and \<open>'question'\<close>, and the language model's answer
  taken from the end of the recorded \<open>'text'\<close>, the \<open>'text'\<close> of the model is the recorded
  one, character by character. The second result has newlines inside a \<open>page_content\<close>,
  which the prompt shows escaped.
\<close>

lemma recorded_result_speed:
  "result_text (llm_chain
     (\<lambda>prompt_text.
        ''\<newline>There are several ways to improve the speed of changes being made to a product. One '' @
        ''approach is to break down the product into smaller, manageable workflows that can be '' @
        ''improved independently. This allows for faster iteration and testing of individual '' @
        ''components, which can lead to quicker overall improvements. Additionally, implementing '' @
        ''continuous integration and delivery practices can help streamline the development '' @
        ''process and reduce the time it takes to release new features or updates.'')
    [\<lparr>page_content =
        ''we process changes to our product. Digital marketplaces move quickly, so we '' @
        ''need to introduce change'',
      page = 32, source = ''/tf/docker-shared-data/rag-data/d4do_paperback.pdf''\<rparr>,
     \<lparr>page_content =
        ''process and within the product to create short feedback loops that allow us to '' @
        ''keep improving our product'',
      page = 230, source = ''/tf/docker-shared-data/rag-data/d4do_paperback.pdf''\<rparr>,
     \<lparr>page_content =
        ''concern yet. Improving them comes later. If you can identify separate workflows '' @
        ''within your product, you'',
      page = 57, source = ''/tf/docker-shared-data/rag-data/d4do_paperback.pdf''\<rparr>,
     \<lparr>page_content =
        ''making minor changes and integrating, testing, and releasing them more often.'',
      page = 125, source = ''/tf/docker-shared-data/rag-data/d4do_paperback.pdf''\<rparr>]
    (''How do I improve the speed of changes that we are making to my product?''))
   =
   ''\<newline>### [INST] \<newline>Instruction: Answer the question based on your \<newline>designed4devops knowledge. '' @
   ''Don't make up answers, just say there is no answer in the book. Here is context to '' @
   ''help:\<newline>\<newline>[Document(page_content='we process changes to our product. Digital marketplaces '' @
   ''move quickly, so we need to introduce change', metadata={'page': 32, 'source': '/'' @
   ''tf/docker-shared-data/rag-data/d4do_paperback.pdf'}), Document(page_content='process '' @
   ''and within the product to create short feedback loops that allow us to keep improving '' @
   ''our product', metadata={'page': 230, 'source': '/'' @
   ''tf/docker-shared-data/rag-data/d4do_paperback.pdf'}), Document(page_content='concern '' @
   ''yet. Improving them comes later. If you can identify separate workflows within your '' @
   ''product, you', metadata={'page': 57, 'source': '/'' @
   ''tf/docker-shared-data/rag-data/d4do_paperback.pdf'}), Document(page_content='making '' @
   ''minor changes and integrating, testing, and releasing them more often.', '' @
   ''metadata={'page': 125, 'source': '/tf/docker-shared-data/rag-data/d4do_paperback.pdf'})]'' @
   ''\<newline>\<newline>### QUESTION:\<newline>How do I improve the speed of changes that we are making to my product? '' @
   ''\<newline>\<newline>[/INST]\<newline> \<newline>There are several ways to improve the speed of changes being made to a '' @
   ''product. One approach is to break down the product into smaller, manageable workflows '' @
   ''that can be improved independently. This allows for faster iteration and testing of '' @
   ''individual components, which can lead to quicker overall improvements. Additionally, '' @
   ''implementing continuous integration and delivery practices can help streamline the '' @
   ''development process and reduce the time it takes to release new features or updates.''"
  by code_simp

lemma recorded_result_risotto:
  "result_text (llm_chain
     (\<lambda>prompt_text.
        ''\<newline>There is no direct answer to this question in the provided documents. However, it is '' @
        ''important to note that Designed4DevOps is a methodology for software development and '' @
        ''delivery that aims to improve the efficiency and reliability of the entire software '' @
        ''development lifecycle. While it may not directly address cooking a risotto, it can '' @
        ''potentially help in implementing automated processes and tools to streamline software '' @
        ''development and delivery, which could indirectly lead to better outcomes.'')
    [\<lparr>page_content =
        ''designed4devops'',
      page = 0, source = ''/tf/docker-shared-data/rag-data/d4do_paperback.pdf''\<rparr>,
     \<lparr>page_content =
        ''how designed4devops  helps to make this easier to implement. It is a more '' @
        ''technical discussion of'',
      page = 17, source = ''/tf/docker-shared-data/rag-data/d4do_paperback.pdf''\<rparr>,
     \<lparr>page_content =
        ''designed4devops  sets out to increase the flow of novemes through this '' @
        ''lifecycle while improving'',
      page = 50, source = ''/tf/docker-shared-data/rag-data/d4do_paperback.pdf''\<rparr>,
     \<lparr>page_content =
        ''in the Designed4: Analysis section. \<newline> \<newline>Application Development'',
      page = 163, source = ''/tf/docker-shared-data/rag-data/d4do_paperback.pdf''\<rparr>]
    (''How will Designed4Devops help me cook a risotto withour burning the rice?''))
   =
   ''\<newline>### [INST] \<newline>Instruction: Answer the question based on your \<newline>designed4devops knowledge. '' @
   ''Don't make up answers, just say there is no answer in the book. Here is context to '' @
   ''help:\<newline>\<newline>[Document(page_content='designed4devops', metadata={'page': 0, 'source': '/'' @
   ''tf/docker-shared-data/rag-data/d4do_paperback.pdf'}), Document(page_content='how '' @
   ''designed4devops  helps to make this easier to implement. It is a more technical '' @
   ''discussion of', metadata={'page': 17, 'source': '/'' @
   ''tf/docker-shared-data/rag-data/d4do_paperback.pdf'}), '' @
   ''Document(page_content='designed4devops  sets out to increase the flow of novemes '' @
   ''through this lifecycle while improving', metadata={'page': 50, 'source': '/'' @
   ''tf/docker-shared-data/rag-data/d4do_paperback.pdf'}), Document(page_content='in the '' @
   ''Designed4: Analysis section. '' @
   [CHR 0x5C] @
   ''n '' @
   [CHR 0x5C] @
   ''nApplication Development', metadata={'page': 163, 'source': '/'' @
   ''tf/docker-shared-data/rag-data/d4do_paperback.pdf'})]\<newline>\<newline>### QUESTION:\<newline>How will '' @
   ''Designed4Devops help me cook a risotto withour burning the rice? \<newline>\<newline>[/INST]\<newline> \<newline>There is '' @
   ''no direct answer to this question in the provided documents. However, it is important '' @
   ''to note that Designed4DevOps is a methodology for software development and delivery '' @
   ''that aims to improve the efficiency and reliability of the entire software development '' @
   ''lifecycle. While it may not directly address cooking a risotto, it can potentially help '' @
   ''in implementing automated processes and tools to streamline software development and '' @
   ''delivery, which could indirectly lead to better outcomes.''"
  by code_simp

text \<open>
  C1, as the claim states it, fails when the retriever finds one passage: the context slot
  holds the Document wrapper and the metadata of the passage, where the specification's
  context is the raw text \<open>abc\<close>.
\<close>

theorem rag_chain_context_counterexample:
  "rag_chain (\<lambda>question. Inr [\<lparr>page_content = ''abc'', page = 0, source = ''doc''\<rparr>])
     (\<lambda>prompt_text. ''A'') ''q''
   = (Inr \<lparr>result_context = [\<lparr>page_content = ''abc'', page = 0, source = ''doc''\<rparr>],
          result_question = ''q'',
          result_text =
            prompt_format ''[Document(page_content='abc', metadata={'page': 0, 'source': 'doc'})]'' ''q''
            @ ''A''\<rparr> :: error + chain_result)
   \<and> spec_context ''\<newline>'' [\<lparr>page_content = ''abc'', page = 0, source = ''doc''\<rparr>] = ''abc''
   \<and> llm_chain_prompt [\<lparr>page_content = ''abc'', page = 0, source = ''doc''\<rparr>] ''q''
       \<noteq> prompt_format (spec_context ''\<newline>'' [\<lparr>page_content = ''abc'', page = 0, source = ''doc''\<rparr>]) ''q''"
  by code_simp

text \<open>
  C1, amended: for every question answered through the chain, that is, for which the
  retriever returns its passages, the call returns, and the context slot of the prompt
  given to the language model is exactly Python's \<open>str\<close> of the retrieved list: an opening
  bracket, the retrieved passages in ranked order, each written as
  \<open>Document(page_content=..., metadata={'page': ..., 'source': ...})\<close> with its text and
  source path in Python's quoted form, separated by a comma and a space, and a closing
  bracket. So the Document wrapper, the page number and the source path of every
  retrieved passage are part of the prompt text.
\<close>

theorem rag_chain_context_is_str_of_documents:
  assumes "retriever q = Inr docs"
  shows "(\<exists>r. rag_chain retriever generate q = Inr r \<and> result_context r = docs \<and>
           result_text r = llm_chain_prompt docs q @ generate (llm_chain_prompt docs q)) \<and>
     llm_chain_prompt docs q =
       prompt_template_head @ ''['' @ py_join '', '' (map Document_repr docs) @ '']''
       @ prompt_template_mid @ q @ prompt_template_tail \<and>
     (\<forall>d\<in>set docs.
        sublist (Document_repr d) (llm_chain_prompt docs q) \<and>
        Document_repr d =
          ''Document(page_content='' @ py_repr_str (page_content d) @
          '', metadata={'page': '' @ py_str_int (page d) @
          '', 'source': '' @ py_repr_str (source d) @ ''})'' \<and>
        sublist (py_str_int (page d)) (llm_chain_prompt docs q) \<and>
        sublist (py_repr_str (source d)) (llm_chain_prompt docs q))"
proof (intro conjI ballI)
  from assms have "rag_chain retriever generate q = Inr (llm_chain generate docs q)"
    by (rule rag_chain_Inr)
  moreover have "result_context (llm_chain generate docs q) = docs" by (simp add: llm_chain_def)
  ultimately show "\<exists>r. rag_chain retriever generate q = Inr r \<and> result_context r = docs \<and>
      result_text r = llm_chain_prompt docs q @ generate (llm_chain_prompt docs q)"
    using result_text_llm_chain [of generate docs q] by blast
  show "llm_chain_prompt docs q =
       prompt_template_head @ ''['' @ py_join '', '' (map Document_repr docs) @ '']''
       @ prompt_template_mid @ q @ prompt_template_tail"
    by (simp add: llm_chain_prompt_def prompt_format_def py_str_docs_def)
next
  fix d assume d: "d \<in> set docs"
  then show in_prompt: "sublist (Document_repr d) (llm_chain_prompt docs q)"
    by (rule sublist_Document_repr_prompt)
  show "Document_repr d =
          ''Document(page_content='' @ py_repr_str (page_content d) @
          '', metadata={'page': '' @ py_str_int (page d) @
          '', 'source': '' @ py_repr_str (source d) @ ''})''"
    by (rule Document_repr_def)
  from sublist_page_Document_repr in_prompt
  show "sublist (py_str_int (page d)) (llm_chain_prompt docs q)"
    by (rule sublist_order.order_trans)
  from sublist_source_Document_repr in_prompt
  show "sublist (py_repr_str (source d)) (llm_chain_prompt docs q)"
    by (rule sublist_order.order_trans)
qed

text \<open>The amended C1 when the retriever finds one passage, page 7 of source \<open>doc\<close>.\<close>

theorem rag_chain_context_is_str_of_documents_witness:
  "(\<exists>r. rag_chain (\<lambda>question. Inr [\<lparr>page_content = ''abc'', page = 7, source = ''doc''\<rparr>]) (\<lambda>prompt_text. ''A'') ''q''
          = (Inr r :: error + chain_result) \<and>
        result_context r = [\<lparr>page_content = ''abc'', page = 7, source = ''doc''\<rparr>] \<and>
        result_text r = llm_chain_prompt [\<lparr>page_content = ''abc'', page = 7, source = ''doc''\<rparr>] ''q'' @ ''A'')
   \<and> sublist (py_str_int 7) (llm_chain_prompt [\<lparr>page_content = ''abc'', page = 7, source = ''doc''\<rparr>] ''q'')
   \<and> sublist (py_repr_str ''doc'') (llm_chain_prompt [\<lparr>page_content = ''abc'', page = 7, source = ''doc''\<rparr>] ''q'')
   \<and> sublist (Document_repr \<lparr>page_content = ''abc'', page = 7, source = ''doc''\<rparr>) (llm_chain_prompt [\<lparr>page_content = ''abc'', page = 7, source = ''doc''\<rparr>] ''q'')"
proof -
  let ?d = "\<lparr>page_content = ''abc'', page = 7, source = ''doc''\<rparr>"
  let ?retriever = "(\<lambda>question. Inr [?d]) :: string \<Rightarrow> error + Document list"
  have found: "?retriever ''q'' = Inr [?d]" by simp
  note str = rag_chain_context_is_str_of_documents
    [where retriever = ?retriever and q = "''q''" and docs = "[?d]"
       and generate = "\<lambda>prompt_text. ''A''", OF found]
  have mem: "?d \<in> set [?d]" by simp
  note at_d = bspec [OF str [THEN conjunct2, THEN conjunct2] mem]
  note call = str [THEN conjunct1]
  from at_d have whole: "sublist (Document_repr ?d) (llm_chain_prompt [?d] ''q'')"
    by (rule conjunct1)
  from at_d have "sublist (py_str_int (page ?d)) (llm_chain_prompt [?d] ''q'')"
    by (elim conjE)
  then have pg: "sublist (py_str_int 7) (llm_chain_prompt [?d] ''q'')" by simp
  from at_d have "sublist (py_repr_str (source ?d)) (llm_chain_prompt [?d] ''q'')"
    by (elim conjE)
  then have src: "sublist (py_repr_str ''doc'') (llm_chain_prompt [?d] ''q'')" by simp
  from call pg src whole show ?thesis by (intro conjI)
qed

text \<open>
  C7, as the claim states it, fails for a maximum of 100 characters and two passages whose
  rendered context has more than 100: the specification's rule keeps the first passage
  only, and the prompt of the chain still holds the second.
\<close>

theorem prompt_budget_counterexample:
  "100 < length (py_str_docs [\<lparr>page_content = ''first passage'', page = 1, source = ''doc''\<rparr>,
                              \<lparr>page_content = ''other passage'', page = 2, source = ''doc''\<rparr>])
   \<and> spec_drop_to_budget 100 [\<lparr>page_content = ''first passage'', page = 1, source = ''doc''\<rparr>,
                              \<lparr>page_content = ''other passage'', page = 2, source = ''doc''\<rparr>]
       = [\<lparr>page_content = ''first passage'', page = 1, source = ''doc''\<rparr>]
   \<and> sublist ''other passage''
        (llm_chain_prompt [\<lparr>page_content = ''first passage'', page = 1, source = ''doc''\<rparr>,
                           \<lparr>page_content = ''other passage'', page = 2, source = ''doc''\<rparr>] ''q'')
   \<and> llm_chain_prompt [\<lparr>page_content = ''first passage'', page = 1, source = ''doc''\<rparr>,
                        \<lparr>page_content = ''other passage'', page = 2, source = ''doc''\<rparr>] ''q''
       \<noteq> llm_chain_prompt
           (spec_drop_to_budget 100 [\<lparr>page_content = ''first passage'', page = 1, source = ''doc''\<rparr>,
                                     \<lparr>page_content = ''other passage'', page = 2, source = ''doc''\<rparr>]) ''q''"
  by code_simp

text \<open>
  C7, amended: the chain has no maximum prompt length and drops nothing. For every
  retrieval result and question, whatever their lengths, the prompt is the template with
  the whole retrieved list in its context slot and the question in its question slot: it
  contains the question, every retrieved passage, and so the top-1 passage whenever
  something was retrieved; the result hands back the same list and question, its text
  starts with that prompt, and the chain passes on to \<open>llm_chain\<close> exactly what the
  retriever returned.
\<close>

theorem llm_chain_prompt_keeps_every_passage:
  "llm_chain_prompt docs q =
     prompt_template_head @ py_str_docs docs @ prompt_template_mid @ q @ prompt_template_tail \<and>
   py_str_docs docs = ''['' @ py_join '', '' (map Document_repr docs) @ '']'' \<and>
   sublist q (llm_chain_prompt docs q) \<and>
   (\<forall>d\<in>set docs. sublist (Document_repr d) (llm_chain_prompt docs q)) \<and>
   (docs \<noteq> [] \<longrightarrow> sublist (Document_repr (hd docs)) (llm_chain_prompt docs q)) \<and>
   result_context (llm_chain generate docs q) = docs \<and>
   result_question (llm_chain generate docs q) = q \<and>
   prefix (llm_chain_prompt docs q) (result_text (llm_chain generate docs q)) \<and>
   (retriever q = Inr docs \<longrightarrow>
      rag_chain retriever generate q = Inr (llm_chain generate docs q))"
proof (intro conjI ballI impI)
  show "llm_chain_prompt docs q =
     prompt_template_head @ py_str_docs docs @ prompt_template_mid @ q @ prompt_template_tail"
    by (simp add: llm_chain_prompt_def prompt_format_def)
  show "py_str_docs docs = ''['' @ py_join '', '' (map Document_repr docs) @ '']''"
    by (rule py_str_docs_def)
  show "sublist q (llm_chain_prompt docs q)" by (rule sublist_question_prompt)
  show "result_context (llm_chain generate docs q) = docs" by (simp add: llm_chain_def)
  show "result_question (llm_chain generate docs q) = q" by (simp add: llm_chain_def)
  show "prefix (llm_chain_prompt docs q) (result_text (llm_chain generate docs q))"
    by (simp add: result_text_llm_chain)
next
  fix d assume "d \<in> set docs"
  then show "sublist (Document_repr d) (llm_chain_prompt docs q)"
    by (rule sublist_Document_repr_prompt)
next
  assume "docs \<noteq> []"
  then have "hd docs \<in> set docs" by simp
  then show "sublist (Document_repr (hd docs)) (llm_chain_prompt docs q)"
    by (rule sublist_Document_repr_prompt)
next
  assume "retriever q = Inr docs"
  then show "rag_chain retriever generate q = Inr (llm_chain generate docs q)"
    by (rule rag_chain_Inr)
qed

text \<open>The amended C7 at two retrieved passages.\<close>

theorem llm_chain_prompt_keeps_every_passage_witness:
  "sublist (Document_repr \<lparr>page_content = ''first passage'', page = 1, source = ''doc''\<rparr>)
     (llm_chain_prompt [\<lparr>page_content = ''first passage'', page = 1, source = ''doc''\<rparr>,
                        \<lparr>page_content = ''other passage'', page = 2, source = ''doc''\<rparr>] ''q'')
   \<and> sublist (Document_repr \<lparr>page_content = ''other passage'', page = 2, source = ''doc''\<rparr>)
     (llm_chain_prompt [\<lparr>page_content = ''first passage'', page = 1, source = ''doc''\<rparr>,
                        \<lparr>page_content = ''other passage'', page = 2, source = ''doc''\<rparr>] ''q'')
   \<and> rag_chain (\<lambda>question. Inr [\<lparr>page_content = ''first passage'', page = 1, source = ''doc''\<rparr>,
                                  \<lparr>page_content = ''other passage'', page = 2, source = ''doc''\<rparr>])
        (\<lambda>prompt_text. ''A'') ''q''
      = (Inr (llm_chain (\<lambda>prompt_text. ''A'')
          [\<lparr>page_content = ''first passage'', page = 1, source = ''doc''\<rparr>,
           \<lparr>page_content = ''other passage'', page = 2, source = ''doc''\<rparr>] ''q'') :: error + chain_result)"
proof -
  let ?d1 = "\<lparr>page_content = ''first passage'', page = 1, source = ''doc''\<rparr>"
  let ?d2 = "\<lparr>page_content = ''other passage'', page = 2, source = ''doc''\<rparr>"
  let ?retriever = "(\<lambda>question. Inr [?d1, ?d2]) :: string \<Rightarrow> error + Document list"
  note keep = llm_chain_prompt_keeps_every_passage
    [where docs = "[?d1, ?d2]" and q = "''q''" and generate = "\<lambda>prompt_text. ''A''"
       and retriever = ?retriever]
  have ret: "?retriever ''q'' = Inr [?d1, ?d2]" by simp
  have nonempty: "[?d1, ?d2] \<noteq> []" by simp
  note every = keep [THEN conjunct2, THEN conjunct2, THEN conjunct2, THEN conjunct1]
  note top = keep [THEN conjunct2, THEN conjunct2, THEN conjunct2, THEN conjunct2, THEN conjunct1,
    THEN mp, OF nonempty]
  note chain = keep [THEN conjunct2, THEN conjunct2, THEN conjunct2, THEN conjunct2, THEN conjunct2,
    THEN conjunct2, THEN conjunct2, THEN conjunct2, THEN mp, OF ret]
  from top have first: "sublist (Document_repr ?d1) (llm_chain_prompt [?d1, ?d2] ''q'')" by simp
  from every have second: "sublist (Document_repr ?d2) (llm_chain_prompt [?d1, ?d2] ''q'')" by simp
  from first second chain show ?thesis by (intro conjI)
qed

text \<open>
  C9: for every \<open>k\<close> the query accepts (\<open>k \<ge> 1\<close>; the specification refuses \<open>k \<le> 0\<close>, and
  the notebook never passes one), querying a collection that holds no record returns the
  empty result and no error; and the chain, whose retriever asks for 4, goes on: the
  retriever returns the empty list, the prompt is assembled with the empty list in its
  context slot, written \<open>[]\<close>, the language model is called on that prompt, and the result
  is returned. Here \<open>query\<close> and the retriever are the specification's; the chain is the
  notebook's.
\<close>

theorem rag_chain_empty_collection:
  assumes "0 < k"
  shows "query distance [] v k = Inr [] \<and>
   similarity_search distance embeddings [] q k = Inr [] \<and>
   as_retriever distance embeddings [] q = Inr [] \<and>
   llm_chain_prompt [] q = prompt_format ''[]'' q \<and>
   rag_chain (as_retriever distance embeddings []) generate q =
     Inr \<lparr>result_context = [], result_question = q,
          result_text = prompt_format ''[]'' q @ generate (prompt_format ''[]'' q)\<rparr>"
proof (intro conjI)
  from assms show "query distance [] v k = Inr []" by (simp add: query_def)
  from assms show "similarity_search distance embeddings [] q k = Inr []"
    by (simp add: similarity_search_def query_def)
  show empty: "as_retriever distance embeddings [] q = Inr []" by (simp add: as_retriever_Inr)
  show form: "llm_chain_prompt [] q = prompt_format ''[]'' q"
    by (simp add: llm_chain_prompt_def py_str_docs_def)
  from empty have "rag_chain (as_retriever distance embeddings []) generate q
      = Inr (llm_chain generate [] q)"
    by (rule rag_chain_Inr)
  then show "rag_chain (as_retriever distance embeddings []) generate q =
     Inr \<lparr>result_context = [], result_question = q,
          result_text = prompt_format ''[]'' q @ generate (prompt_format ''[]'' q)\<rparr>"
    by (simp add: llm_chain_def mistral_llm_def text_generation_pipeline_def form)
qed

text \<open>C9 at \<open>k = 1\<close>, with a model that answers \<open>A\<close>.\<close>

theorem rag_chain_empty_collection_witness:
  "query (\<lambda>a b. 0::nat) ([] :: nat collection) 0 1 = Inr []
   \<and> similarity_search (\<lambda>a b. 0::nat) (\<lambda>t. 0::nat) [] ''q'' 1 = Inr []
   \<and> as_retriever (\<lambda>a b. 0::nat) (\<lambda>t. 0::nat) [] ''q'' = Inr []
   \<and> llm_chain_prompt [] ''q'' = prompt_format ''[]'' ''q''
   \<and> rag_chain (as_retriever (\<lambda>a b. 0::nat) (\<lambda>t. 0::nat) []) (\<lambda>prompt_text. ''A'') ''q'' =
       Inr \<lparr>result_context = [], result_question = ''q'',
            result_text = prompt_format ''[]'' ''q'' @ ''A''\<rparr>"
proof -
  have accepted: "(0::int) < 1" by simp
  show ?thesis
    by (rule rag_chain_empty_collection
      [where k = 1 and distance = "\<lambda>a b. 0::nat" and v = "0::nat" and embeddings = "\<lambda>t. 0::nat"
         and q = "''q''" and generate = "\<lambda>prompt_text. ''A''", OF accepted])
qed

text \<open>
  What the flag decides: without \<open>return_full_text\<close> the same pipeline would return the
  generated text alone.
\<close>

lemma text_generation_pipeline_answer_only:
  "text_generation_pipeline False generate prompt_text = generate prompt_text"
  by (simp add: text_generation_pipeline_def)

text \<open>
  C10: for every question answered through the chain, that is, for which the retriever
  returns its passages, the call returns a result whose \<open>text\<close> is the whole assembled
  prompt (the instruction, the rendered context, the question), followed by the newly
  generated text, because the pipeline is built with \<open>return_full_text=True\<close>. The prompt
  is a prefix of the returned text, and the returned text is never the generated answer
  alone.
\<close>

theorem rag_chain_text_starts_with_prompt:
  assumes "retriever q = Inr docs"
  shows "\<exists>r. rag_chain retriever generate q = Inr r \<and>
     result_context r = docs \<and> result_question r = q \<and>
     llm_chain_prompt docs q =
       prompt_template_head @ py_str_docs docs @ prompt_template_mid @ q @ prompt_template_tail \<and>
     result_text r = text_generation_pipeline True generate (llm_chain_prompt docs q) \<and>
     result_text r = llm_chain_prompt docs q @ generate (llm_chain_prompt docs q) \<and>
     prefix (llm_chain_prompt docs q) (result_text r) \<and>
     result_text r \<noteq> generate (llm_chain_prompt docs q)"
proof -
  let ?r = "llm_chain generate docs q"
  have form: "llm_chain_prompt docs q =
       prompt_template_head @ py_str_docs docs @ prompt_template_mid @ q @ prompt_template_tail"
    by (simp add: llm_chain_prompt_def prompt_format_def)
  have pipe: "result_text ?r = text_generation_pipeline True generate (llm_chain_prompt docs q)"
    by (simp add: llm_chain_def mistral_llm_def)
  have full: "result_text ?r = llm_chain_prompt docs q @ generate (llm_chain_prompt docs q)"
    by (rule result_text_llm_chain)
  have "llm_chain_prompt docs q \<noteq> []"
    using prompt_template_head_not_Nil by (simp add: form)
  then have ne: "result_text ?r \<noteq> generate (llm_chain_prompt docs q)"
    by (simp add: full)
  have pre: "prefix (llm_chain_prompt docs q) (result_text ?r)"
    by (simp add: full)
  from assms have "rag_chain retriever generate q = Inr ?r" by (rule rag_chain_Inr)
  moreover have "result_context ?r = docs" and "result_question ?r = q"
    by (simp_all add: llm_chain_def)
  ultimately show ?thesis using form pipe full pre ne by blast
qed

text \<open>C10 when the retriever finds one passage and the model answers \<open>A\<close>.\<close>

theorem rag_chain_text_starts_with_prompt_witness:
  "\<exists>r. rag_chain (\<lambda>question. Inr [\<lparr>page_content = ''abc'', page = 7, source = ''doc''\<rparr>]) (\<lambda>prompt_text. ''A'') ''q''
         = (Inr r :: error + chain_result) \<and>
       result_text r = llm_chain_prompt [\<lparr>page_content = ''abc'', page = 7, source = ''doc''\<rparr>] ''q'' @ ''A'' \<and>
       prefix (llm_chain_prompt [\<lparr>page_content = ''abc'', page = 7, source = ''doc''\<rparr>] ''q'') (result_text r) \<and>
       result_text r \<noteq> ''A''"
proof -
  let ?retriever = "(\<lambda>question. Inr [\<lparr>page_content = ''abc'', page = 7, source = ''doc''\<rparr>]) :: string \<Rightarrow> error + Document list"
  have found: "?retriever ''q'' = Inr [\<lparr>page_content = ''abc'', page = 7, source = ''doc''\<rparr>]" by simp
  from rag_chain_text_starts_with_prompt
    [where retriever = ?retriever and q = "''q''" and docs = "[\<lparr>page_content = ''abc'', page = 7, source = ''doc''\<rparr>]"
       and generate = "\<lambda>prompt_text. ''A''", OF found]
  show ?thesis by blast
qed

end
